theory Spec2Isabelle
  imports Main "HOL-Library.Sublist"
begin

section \<open>Values and records of pubchem\_parser.py\<close>

text \<open>
  The synonym list handed to \<open>filter_names\<close> comes from the remote service and may hold
  values that are not strings, which is why the function tests \<open>isinstance(name, str)\<close>.
  A raw element is therefore a tagged value. Strings are lists of 8-bit characters; on
  these the regular-expression class \<open>\d\<close> is exactly the ten ASCII digits.
\<close>

datatype pyval = PStr string | PInt int | PNone

text \<open>The dataclass \<open>Compound\<close> (lines 12-17).\<close>

record compound =
  cid :: int
  smiles :: string
  iupac_name :: string
  trivial_names :: "string list"

section \<open>The name filter (lines 143-154)\<close>

text \<open>Line 145: keep the elements that are strings.\<close>

fun strings_of :: "pyval list \<Rightarrow> string list" where
  "strings_of [] = []"
| "strings_of (PStr s # vs) = s # strings_of vs"
| "strings_of (v # vs) = strings_of vs"

definition is_digit :: "char \<Rightarrow> bool" where
  "is_digit c = (c \<in> set ''0123456789'')"

text \<open>
  Line 147, the pattern \<open>(\d{2,}|, )\<close>. \<open>match_here\<close> is a match of the pattern at the
  start of a string: a maximal digit run of length at least two, or a comma and a space.
  \<open>pattern_search\<close> is \<open>pattern.search\<close>: a match at some position.
\<close>

definition match_here :: "string \<Rightarrow> bool" where
  "match_here s = (2 \<le> length (takeWhile is_digit s) \<or> take 2 s = '', '')"

fun pattern_search :: "string \<Rightarrow> bool" where
  "pattern_search [] = match_here []"
| "pattern_search (c # cs) = (match_here (c # cs) \<or> pattern_search cs)"

definition dquote :: char where
  "dquote = CHR 0x22"

definition startswith_dquote :: "string \<Rightarrow> bool" where
  "startswith_dquote s = (take 1 s = [dquote])"

definition endswith_dquote :: "string \<Rightarrow> bool" where
  "endswith_dquote s = (s \<noteq> [] \<and> last s = dquote)"

text \<open>The slice \<open>name[1:-1]\<close>; on a string of length one it is the empty string.\<close>

definition slice_1_m1 :: "string \<Rightarrow> string" where
  "slice_1_m1 s = butlast (tl s)"

text \<open>
  Lines 150-152: the loop over \<open>enumerate(filtered_names)\<close> that overwrites position
  \<open>i\<close> of the list it iterates. The index never leaves the list, and an assignment
  touches only the position just visited.
\<close>

function strip_loop :: "nat \<Rightarrow> string list \<Rightarrow> string list" where
  "strip_loop i xs =
     (if i < length xs
      then strip_loop (Suc i)
             (if startswith_dquote (xs ! i) \<and> endswith_dquote (xs ! i)
              then xs[i := slice_1_m1 (xs ! i)] else xs)
      else xs)"
  by pat_completeness auto
termination
  by (relation "measure (\<lambda>(i, xs). length xs - i)") auto

declare strip_loop.simps [simp del]

definition filter_names :: "pyval list \<Rightarrow> string list" where
  "filter_names names =
     strip_loop 0 (filter (\<lambda>s. \<not> pattern_search s) (strings_of names))"

section \<open>The store (class Database, lines 20-140)\<close>

text \<open>
  The SQLite file after \<open>Database.create()\<close>: three tables, each a list of rows. A row
  of \<open>Compounds\<close> is (CID, IUPAC, Smiles), a row of \<open>TrivialNames\<close> is (ID, Name), a
  row of \<open>CIDNameMatches\<close> is (ID, NameID, CID). \<open>TrivialNames\<close> and
  \<open>CIDNameMatches\<close> are in the order of their keys, which is the order of insertion;
  \<open>Compounds\<close> is in the order of insertion, and no statement of the program depends on
  the order of its rows. The columns \<open>Name\<close>, \<open>IUPAC\<close> and \<open>Smiles\<close> are declared
  \<open>string\<close>, which gives them NUMERIC affinity; the tables here hold the values that
  SQLite stores as text, and a file in which a name is stored as a number is not a value
  of \<open>database\<close>.

  Every static method opens a connection of its own, runs one statement and commits, so a
  method is a function from the tables to the tables, or an exception. Exceptions are
  values of \<open>error\<close>.

  The statements are built by f-strings, so what a statement means depends on the text that
  is put between its double quotes. This is modelled below for the texts whose reading by
  SQLite is settled by a short rule; for the others (a text that looks like a number and
  would be stored as one, a text with a NUL character, a text whose double quotes turn the
  statement into another statement) the result is \<open>Inl Unmodelled\<close>. \<open>Unmodelled\<close> is
  not an exception of the program: it marks an input on which this theory does not say
  what the program does.
\<close>

datatype error = IntegrityError | OperationalError | RemoteError | Unmodelled

record database =
  Compounds :: "(int \<times> string \<times> string) list"
  TrivialNames :: "(int \<times> string) list"
  CIDNameMatches :: "(int \<times> int \<times> int) list"

definition empty_db :: database where
  "empty_db = \<lparr>Compounds = [], TrivialNames = [], CIDNameMatches = []\<rparr>"

subsection \<open>The text between the double quotes\<close>

text \<open>
  A statement \<open>... "{name}" ...\<close> holds a token that starts at the first double quote and
  ends at the next double quote that is not doubled; inside the token \<open>""\<close> stands for one
  double quote. \<open>quotes_paired\<close> says that every double quote of the text is half of
  such a pair, so that the token ends with the closing quote of the f-string;
  \<open>unescape\<close> is the content of the token then.
\<close>

fun quotes_paired :: "string \<Rightarrow> bool" where
  "quotes_paired [] = True"
| "quotes_paired [c] = (c \<noteq> dquote)"
| "quotes_paired (c # e # s) =
     (if c = dquote then e = dquote \<and> quotes_paired s else quotes_paired (e # s))"

fun unescape :: "string \<Rightarrow> string" where
  "unescape [] = []"
| "unescape [c] = [c]"
| "unescape (c # e # s) =
     (if c = dquote \<and> e = dquote then dquote # unescape s else c # unescape (e # s))"

text \<open>
  A text whose first double quote that is not doubled is followed by one or more spaces and
  another double quote: the statement then has two quoted tokens in a row, which is a
  syntax error wherever the f-strings of this program put the text.
\<close>

fun closes_before_quote :: "string \<Rightarrow> bool" where
  "closes_before_quote [] = False"
| "closes_before_quote [c] = False"
| "closes_before_quote (c # e # s) =
     (if c = dquote
      then (if e = dquote then closes_before_quote s
            else e = CHR '' '' \<and> take 1 (dropWhile (\<lambda>x. x = CHR '' '') s) = [dquote])
      else closes_before_quote (e # s))"

definition word_char :: "char \<Rightarrow> bool" where
  "word_char c =
     (c \<in> set ''ABCDEFGHIJKLMNOPQRSTUVWXYZabcdefghijklmnopqrstuvwxyz0123456789 '')"

definition nul :: char where
  "nul = CHR 0x00"

text \<open>
  What preparing a statement does, given the texts put between its double quotes, in the
  order of the statement: \<open>None\<close> when each text is read as one token. A statement with
  an odd number of double quotes, and nothing else than letters, digits and spaces in the
  texts, has a token that never ends, and is refused too.
\<close>

definition prepare :: "string list \<Rightarrow> error option" where
  "prepare texts =
     (if list_ex (\<lambda>s. nul \<in> set s) texts then Some Unmodelled
      else (case find (\<lambda>s. \<not> quotes_paired s) texts of
              None \<Rightarrow> None
            | Some s \<Rightarrow>
                if closes_before_quote s \<or>
                   (odd (length (filter (\<lambda>c. c = dquote) (concat texts))) \<and>
                    list_all (\<lambda>c. word_char c \<or> c = dquote) (concat texts))
                then Some OperationalError
                else Some Unmodelled))"

text \<open>
  A text that a column of NUMERIC affinity may store as a number: it is made of digits,
  signs, points, the letter e and white space, and has a digit. (Not every such text is a
  number for SQLite; every text that is one is of this form.)
\<close>

definition looks_numeric :: "string \<Rightarrow> bool" where
  "looks_numeric t =
     (list_all (\<lambda>c. c \<in> set ''0123456789+-.eE'' \<or>
                     c \<in> set [CHR 0x09, CHR 0x0A, CHR 0x0B, CHR 0x0C, CHR 0x0D, CHR 0x20]) t \<and>
      list_ex is_digit t)"

text \<open>
  In the \<open>WHERE\<close> clause of a \<open>SELECT\<close> on \<open>TrivialNames\<close> a double-quoted token
  that spells a column of the table, in any case of the ASCII letters, is that column, and
  only otherwise a string: \<open>Name\<close> is the column itself, and \<open>ID\<close> and the three names
  of the row key are the key.
\<close>

definition lower :: "char \<Rightarrow> char" where
  "lower c =
     (case map_of (zip ''ABCDEFGHIJKLMNOPQRSTUVWXYZ'' ''abcdefghijklmnopqrstuvwxyz'') c of
        None \<Rightarrow> c
      | Some l \<Rightarrow> l)"

definition names_column :: "string \<Rightarrow> bool" where
  "names_column t = (map lower t = ''name'')"

definition names_rowid :: "string \<Rightarrow> bool" where
  "names_rowid t = (map lower t \<in> set [''id'', ''rowid'', ''oid'', ''_rowid_''])"

text \<open>
  The rows that \<open>WHERE Name == "t"\<close> selects. The stored names are text and never NULL,
  so \<open>Name == Name\<close> holds of every row, and \<open>Name == ID\<close>, a text against an integer,
  of none.
\<close>

definition row_matches :: "string \<Rightarrow> int \<times> string \<Rightarrow> bool" where
  "row_matches t r =
     (if names_column t then True else if names_rowid t then False else snd r = t)"

text \<open>The integers that SQLite stores as integers.\<close>

definition int64 :: "int \<Rightarrow> bool" where
  "int64 i = (- (2 ^ 63) \<le> i \<and> i < 2 ^ 63)"

subsection \<open>The methods\<close>

text \<open>
  \<open>create\<close> (lines 31-52): \<open>create table if not exists\<close>, three times. The file is
  \<open>None\<close> before the first run.
\<close>

definition create :: "database option \<Rightarrow> database" where
  "create file = (case file of None \<Rightarrow> empty_db | Some d \<Rightarrow> d)"

text \<open>
  The key that \<open>integer primary key autoincrement\<close> gives a new row: one more than the
  largest key so far, 1 in an empty table. No row is ever deleted, so the largest key of
  the table is the largest key ever used. The keys are taken to stay below the largest
  64-bit integer.
\<close>

definition next_id :: "int list \<Rightarrow> int" where
  "next_id ids = (if ids = [] then 1 else Max (set ids) + 1)"

text \<open>\<open>get_max_cid\<close> (lines 54-61): \<open>MAX(CID)\<close> is NULL on an empty table.\<close>

definition get_max_cid :: "database \<Rightarrow> int option" where
  "get_max_cid d =
     (if Compounds d = [] then None else Some (Max (set (map fst (Compounds d)))))"

text \<open>
  The statement \<open>SELECT ID FROM TrivialNames WHERE Name == "{name}";\<close> of lines 68 and
  87, with \<open>fetchone()\<close>: the first row selected, if there is one.
\<close>

definition select_name :: "database \<Rightarrow> string \<Rightarrow> error + (int \<times> string) option" where
  "select_name d name =
     (case prepare [name] of
        Some e \<Rightarrow> Inl e
      | None \<Rightarrow>
          if looks_numeric (unescape name) then Inl Unmodelled
          else Inr (find (row_matches (unescape name)) (TrivialNames d)))"

text \<open>\<open>trivial_name_exists\<close> (lines 63-71).\<close>

definition trivial_name_exists :: "database \<Rightarrow> string \<Rightarrow> error + bool" where
  "trivial_name_exists d name =
     (case select_name d name of
        Inl e \<Rightarrow> Inl e
      | Inr found \<Rightarrow> Inr (found \<noteq> None))"

text \<open>
  \<open>cid_exists\<close> (lines 73-80). Only an integer is put into the statement, written in
  decimal; one outside the 64-bit range is read as a real number and equals no stored CID.
\<close>

definition cid_exists :: "database \<Rightarrow> int \<Rightarrow> bool" where
  "cid_exists d c = (find (\<lambda>r. fst r = c) (Compounds d) \<noteq> None)"

text \<open>\<open>get_trivial_name_id\<close> (lines 82-90).\<close>

definition get_trivial_name_id :: "database \<Rightarrow> string \<Rightarrow> error + int option" where
  "get_trivial_name_id d name =
     (case select_name d name of
        Inl e \<Rightarrow> Inl e
      | Inr None \<Rightarrow> Inr None
      | Inr (Some r) \<Rightarrow> Inr (Some (fst r)))"

text \<open>
  \<open>insert_trivial_name\<close> (lines 92-97). In \<open>VALUES("{name}")\<close> there is no column to
  refer to, and a token is a string.
\<close>

definition insert_trivial_name :: "string \<Rightarrow> database \<Rightarrow> error + database" where
  "insert_trivial_name name d =
     (case prepare [name] of
        Some e \<Rightarrow> Inl e
      | None \<Rightarrow>
          if looks_numeric (unescape name) then Inl Unmodelled
          else Inr (d\<lparr>TrivialNames :=
                       TrivialNames d @
                       [(next_id (map fst (TrivialNames d)), unescape name)]\<rparr>))"

text \<open>
  \<open>insert_cid_name_match\<close> (lines 99-104). With \<open>name_id = None\<close> the statement reads
  \<open>VALUES(cid, None)\<close>, which SQLite rejects: there is no column \<open>None\<close>. Otherwise
  \<open>name_id\<close> is a key read from \<open>TrivialNames\<close>. A CID outside the 64-bit range
  would be stored as a real number.
\<close>

definition insert_cid_name_match ::
  "int \<Rightarrow> int option \<Rightarrow> database \<Rightarrow> error + database" where
  "insert_cid_name_match c name_id d =
     (case name_id of
        None \<Rightarrow> Inl OperationalError
      | Some n \<Rightarrow>
          if int64 c
          then Inr (d\<lparr>CIDNameMatches :=
                       CIDNameMatches d @ [(next_id (map fst (CIDNameMatches d)), n, c)]\<rparr>)
          else Inl Unmodelled)"

text \<open>
  \<open>insert_compound\<close> (lines 106-112). The primary key rejects a CID already stored, and
  one that is not a 64-bit integer.
\<close>

definition insert_compound :: "compound \<Rightarrow> database \<Rightarrow> error + database" where
  "insert_compound compound d =
     (case prepare [iupac_name compound, smiles compound] of
        Some e \<Rightarrow> Inl e
      | None \<Rightarrow>
          if int64 (cid compound) \<and> \<not> cid_exists d (cid compound)
          then (if looks_numeric (unescape (iupac_name compound)) \<or>
                   looks_numeric (unescape (smiles compound))
                then Inl Unmodelled
                else Inr (d\<lparr>Compounds :=
                             Compounds d @
                             [(cid compound, unescape (iupac_name compound),
                               unescape (smiles compound))]\<rparr>))
          else Inl IntegrityError)"

text \<open>
  \<open>add_trivial_name\<close> (lines 114-127). The result is the returned value or the exception,
  together with the tables as the statements that did run left them.
\<close>

definition add_trivial_name ::
  "string \<Rightarrow> int \<Rightarrow> database \<Rightarrow> (error + bool) \<times> database" where
  "add_trivial_name name c d =
     (case trivial_name_exists d name of
        Inl e \<Rightarrow> (Inl e, d)
      | Inr found \<Rightarrow>
          (case (if \<not> found then insert_trivial_name name d else Inr d) of
             Inl e \<Rightarrow> (Inl e, d)
           | Inr d1 \<Rightarrow>
               (case get_trivial_name_id d1 name of
                  Inl e \<Rightarrow> (Inl e, d1)
                | Inr name_id \<Rightarrow>
                    if name \<noteq> []
                    then (case insert_cid_name_match c name_id d1 of
                            Inl e \<Rightarrow> (Inl e, d1)
                          | Inr d2 \<Rightarrow> (Inr (\<not> found), d2))
                    else (Inr (\<not> found), d1))))"

text \<open>The loop of lines 137-138; an exception leaves it.\<close>

fun add_trivial_names ::
  "string list \<Rightarrow> int \<Rightarrow> database \<Rightarrow> (error + unit) \<times> database" where
  "add_trivial_names [] c d = (Inr (), d)"
| "add_trivial_names (n # ns) c d =
     (case add_trivial_name n c d of
        (Inl e, d1) \<Rightarrow> (Inl e, d1)
      | (Inr b, d1) \<Rightarrow> add_trivial_names ns c d1)"

text \<open>\<open>add_compound\<close> (lines 129-140).\<close>

definition add_compound :: "compound \<Rightarrow> database \<Rightarrow> (error + bool) \<times> database" where
  "add_compound compound d =
     (if cid_exists d (cid compound) then (Inr False, d)
      else (case insert_compound compound d of
              Inl e \<Rightarrow> (Inl e, d)
            | Inr d1 \<Rightarrow>
                (case add_trivial_names (trivial_names compound) (cid compound) d1 of
                   (Inl e, d2) \<Rightarrow> (Inl e, d2)
                 | (Inr u, d2) \<Rightarrow> (Inr True, d2))))"


section \<open>Fetching a compound (lines 157-180)\<close>

text \<open>
  What \<open>pubchempy\<close> answers for a CID: an exception (from \<open>from_cid\<close> or from reading
  one of the three attributes), or the attributes. A structure or a name may be missing.
\<close>

record pcp_compound =
  canonical_smiles :: "string option"
  pcp_iupac_name :: "string option"
  synonyms :: "pyval list"

type_synonym remote = "int \<Rightarrow> error + pcp_compound"

text \<open>Truth value of an optional string: \<open>None\<close> and the empty string are false.\<close>

definition truthy :: "string option \<Rightarrow> bool" where
  "truthy v = (case v of None \<Rightarrow> False | Some s \<Rightarrow> s \<noteq> [])"

text \<open>
  \<open>tuple(set(trivial_names))\<close> keeps one copy of each name, in an order the language
  does not fix; \<open>remdups\<close> is one such order.
\<close>

definition get_compound :: "remote \<Rightarrow> int \<Rightarrow> compound option" where
  "get_compound pcp c =
     (case pcp c of
        Inl ex \<Rightarrow> None
      | Inr r \<Rightarrow>
          (let names = remdups (filter_names (synonyms r))
           in if truthy (canonical_smiles r) \<and> truthy (pcp_iupac_name r)
              then Some \<lparr>cid = c, smiles = the (canonical_smiles r),
                         iupac_name = the (pcp_iupac_name r), trivial_names = names\<rparr>
              else None))"

section \<open>The run (lines 183-225)\<close>

text \<open>
  The state of the loop: the tables, the list \<open>broken_cids\<close>, the identifiers that
  \<open>get_compound\<close> has been called with, in the order of the calls, and the status
  lines printed so far, one per identifier, each with the value of \<open>resp\<close>.
\<close>

record run_state =
  store :: database
  broken_cids :: "int list"
  fetched :: "int list"
  status_lines :: "(int \<times> bool) list"

type_synonym persist = "compound \<Rightarrow> database \<Rightarrow> (error + bool) \<times> database"

text \<open>
  One iteration (lines 197-214). The call that writes the compound is a parameter, so
  that the \<open>try\<close> of lines 201-205 can be studied for any behaviour of the store,
  including a statement that fails half way; \<open>run_cids\<close> passes \<open>add_compound\<close>.
\<close>

definition run_step :: "persist \<Rightarrow> remote \<Rightarrow> int \<Rightarrow> run_state \<Rightarrow> run_state" where
  "run_step writer pcp c st =
     (let (resp, d1) =
            (case get_compound pcp c of
               None \<Rightarrow> (False, store st)
             | Some compound \<Rightarrow>
                 (case writer compound (store st) of
                    (Inl ex, d) \<Rightarrow> (False, d)
                  | (Inr r, d) \<Rightarrow> (r, d)))
      in \<lparr>store = d1,
          broken_cids = (if resp then broken_cids st else broken_cids st @ [c]),
          fetched = fetched st @ [c],
          status_lines = status_lines st @ [(c, resp)]\<rparr>)"

fun run_loop :: "persist \<Rightarrow> remote \<Rightarrow> int list \<Rightarrow> run_state \<Rightarrow> run_state" where
  "run_loop writer pcp [] st = st"
| "run_loop writer pcp (c # cs) st = run_loop writer pcp cs (run_step writer pcp c st)"

text \<open>Line 189: \<open>max_cid + 1 if max_cid else 1\<close>.\<close>

definition start_cid :: "int option \<Rightarrow> int" where
  "start_cid max_cid =
     (case max_cid of None \<Rightarrow> 1 | Some m \<Rightarrow> if m \<noteq> 0 then m + 1 else 1)"

definition run_cids_with :: "persist \<Rightarrow> remote \<Rightarrow> int \<Rightarrow> database option \<Rightarrow> run_state" where
  "run_cids_with writer pcp count file =
     (let d0 = create file;
          s = start_cid (get_max_cid d0)
      in run_loop writer pcp [s .. s + count - 1]
           \<lparr>store = d0, broken_cids = [], fetched = [], status_lines = []\<rparr>)"

definition run_cids :: "remote \<Rightarrow> int \<Rightarrow> database option \<Rightarrow> run_state" where
  "run_cids pcp count file = run_cids_with add_compound pcp count file"

section \<open>Inputs for the examples\<close>

text \<open>
  A remote service for the examples: identifier 3 raises, identifier 4 has a structure
  but no name, every other identifier is methane.
\<close>

definition mock_pcp :: remote where
  "mock_pcp i =
     (if i = 3 then Inl RemoteError
      else if i = 4 then Inr \<lparr>canonical_smiles = Some ''CC'', pcp_iupac_name = None,
                              synonyms = [PStr ''ethane'']\<rparr>
      else Inr \<lparr>canonical_smiles = Some ''C'', pcp_iupac_name = Some ''methane'',
                synonyms = [PStr ''marsh gas'']\<rparr>)"

text \<open>
  A store for the examples whose \<open>add_compound\<close> raises on identifier 2 after the row of
  \<open>Compounds\<close> is written and before any name is, and works otherwise.
\<close>

definition failing_store :: persist where
  "failing_store compound d =
     (if cid compound = 2
      then (Inl OperationalError,
            d\<lparr>Compounds :=
                 Compounds d @ [(cid compound, iupac_name compound, smiles compound)]\<rparr>)
      else add_compound compound d)"

section \<open>Properties named by the specification\<close>

text \<open>A run of two or more consecutive digits somewhere in a string.\<close>

definition has_digit_run :: "string \<Rightarrow> bool" where
  "has_digit_run s = (\<exists>u a b v. s = u @ a # b # v \<and> is_digit a \<and> is_digit b)"

text \<open>One pair of wrapping double quotes removed, when the string has one.\<close>

definition strip_quotes :: "string \<Rightarrow> string" where
  "strip_quotes s = (if startswith_dquote s \<and> endswith_dquote s then slice_1_m1 s else s)"



text \<open>The rows of \<open>TrivialNames\<close> that hold a given name.\<close>

definition name_rows :: "database \<Rightarrow> string \<Rightarrow> (int \<times> string) list" where
  "name_rows d name = filter (\<lambda>r. snd r = name) (TrivialNames d)"

text \<open>The first identifier of a run as the specification writes it.\<close>

definition spec_start :: "database \<Rightarrow> int" where
  "spec_start d = (case get_max_cid d of None \<Rightarrow> 0 | Some m \<Rightarrow> m) + 1"

text \<open>
  A text that the statements store and compare as it is spelt: it has no double quote and
  no NUL character, and it is not of the form of a number.
\<close>

definition sql_text :: "string \<Rightarrow> bool" where
  "sql_text s = (dquote \<notin> set s \<and> nul \<notin> set s \<and> \<not> looks_numeric s)"

text \<open>A name that is such a text and does not spell a column of \<open>TrivialNames\<close>.\<close>

definition plain_name :: "string \<Rightarrow> bool" where
  "plain_name s = (sql_text s \<and> \<not> names_column s \<and> \<not> names_rowid s)"


text \<open>The identity under which a text is stored: the key of its first row.\<close>

definition stored_id :: "database \<Rightarrow> string \<Rightarrow> int option" where
  "stored_id d name =
     (case find (\<lambda>r. snd r = name) (TrivialNames d) of
        None \<Rightarrow> None
      | Some r \<Rightarrow> Some (fst r))"


section \<open>Facts about the name filter\<close>

lemma strip_loop_take_drop:
  "i \<le> length xs \<Longrightarrow> strip_loop i xs = take i xs @ map strip_quotes (drop i xs)"
proof (induction i xs rule: strip_loop.induct)
  case (1 i xs)
  show ?case
  proof (cases "i < length xs")
    case False
    have "strip_loop i xs = xs"
      using False by (subst strip_loop.simps) simp
    with False "1.prems" show ?thesis by simp
  next
    case True
    let ?ys = "if startswith_dquote (xs ! i) \<and> endswith_dquote (xs ! i)
               then xs[i := slice_1_m1 (xs ! i)] else xs"
    have len: "length ?ys = length xs" by simp
    have ih: "strip_loop (Suc i) ?ys = take (Suc i) ?ys @ map strip_quotes (drop (Suc i) ?ys)"
      using "1.IH" [OF True] True len by simp
    have tk: "take (Suc i) ?ys = take i xs @ [strip_quotes (xs ! i)]"
      using True by (simp add: strip_quotes_def take_Suc_conv_app_nth)
    have dr: "drop (Suc i) ?ys = drop (Suc i) xs" by simp
    have "strip_loop i xs = strip_loop (Suc i) ?ys"
      using True by (subst strip_loop.simps) simp
    also have "\<dots> = take i xs @ [strip_quotes (xs ! i)] @ map strip_quotes (drop (Suc i) xs)"
      using ih tk dr by simp
    also have "\<dots> = take i xs @ map strip_quotes (drop i xs)"
      using True by (simp add: Cons_nth_drop_Suc [symmetric])
    finally show ?thesis .
  qed
qed

lemma strip_loop_map: "strip_loop 0 xs = map strip_quotes xs"
  by (simp add: strip_loop_take_drop)

lemma filter_names_map:
  "filter_names names =
     map strip_quotes (filter (\<lambda>s. \<not> pattern_search s) (strings_of names))"
  by (simp add: filter_names_def strip_loop_map)

lemmas filter_names_eval = filter_names_map strip_quotes_def match_here_def is_digit_def
  dquote_def startswith_dquote_def endswith_dquote_def slice_1_m1_def

text \<open>A match at the start of a suffix is found by the search.\<close>

lemma match_here_search: "match_here w \<Longrightarrow> pattern_search (u @ w)"
  by (induction u) (cases w; simp)+

lemma digit_run_search: "has_digit_run s \<Longrightarrow> pattern_search s"
  unfolding has_digit_run_def
  by (auto intro!: match_here_search simp: match_here_def)

lemma comma_space_search: "sublist '', '' s \<Longrightarrow> pattern_search s"
  unfolding sublist_def
  by (auto intro!: match_here_search simp: match_here_def)

text \<open>Conversely, the search finds nothing but a digit run or a comma and a space.\<close>

lemma match_here_cases:
  assumes "match_here s"
  shows "has_digit_run s \<or> sublist '', '' s"
proof (cases "2 \<le> length (takeWhile is_digit s)")
  case True
  then obtain a b v where "s = a # b # v" and "is_digit a" and "is_digit b"
    by (cases s; cases "tl s") (auto split: if_splits)
  then have "s = [] @ a # b # v \<and> is_digit a \<and> is_digit b" by simp
  then show ?thesis unfolding has_digit_run_def by blast
next
  case False
  with assms have "take 2 s = '', ''" by (simp add: match_here_def)
  then have "s = [] @ '', '' @ drop 2 s" by (metis append_Nil append_take_drop_id)
  then show ?thesis unfolding sublist_def by blast
qed

lemma pattern_search_cases: "pattern_search s \<Longrightarrow> has_digit_run s \<or> sublist '', '' s"
proof (induction s)
  case Nil
  then show ?case by (simp add: match_here_def)
next
  case (Cons c cs)
  show ?case
  proof (cases "match_here (c # cs)")
    case True
    then show ?thesis by (rule match_here_cases)
  next
    case False
    with Cons.prems have "pattern_search cs" by simp
    from Cons.IH [OF this] show ?thesis
    proof
      assume "has_digit_run cs"
      then obtain u a b v where "cs = u @ a # b # v" "is_digit a" "is_digit b"
        unfolding has_digit_run_def by blast
      then have "c # cs = (c # u) @ a # b # v \<and> is_digit a \<and> is_digit b" by simp
      then show ?thesis unfolding has_digit_run_def by blast
    next
      assume "sublist '', '' cs"
      then show ?thesis by (simp add: sublist_Cons_right)
    qed
  qed
qed

lemma pattern_search_iff: "pattern_search s \<longleftrightarrow> has_digit_run s \<or> sublist '', '' s"
  using pattern_search_cases digit_run_search comma_space_search by blast

text \<open>Removing the wrapping quotes leaves a contiguous part of the string.\<close>

lemma slice_sublist: "sublist (slice_1_m1 s) s"
proof (cases "tl s = []")
  case True
  then show ?thesis by (simp add: slice_1_m1_def)
next
  case False
  then have "s = [hd s] @ butlast (tl s) @ [last (tl s)]"
    by (cases s) auto
  then show ?thesis unfolding slice_1_m1_def sublist_def by blast
qed

lemma strip_quotes_sublist: "sublist (strip_quotes s) s"
  by (simp add: strip_quotes_def slice_sublist)

lemma digit_run_sublist:
  assumes "has_digit_run t" and "sublist t s"
  shows "has_digit_run s"
proof -
  from assms obtain u a b v p q
    where "t = u @ a # b # v" "is_digit a" "is_digit b" "s = p @ t @ q"
    unfolding has_digit_run_def sublist_def by blast
  then have "s = (p @ u) @ a # b # (v @ q) \<and> is_digit a \<and> is_digit b" by simp
  then show ?thesis unfolding has_digit_run_def by blast
qed

lemma strip_quotes_clean:
  assumes "\<not> pattern_search s"
  shows "\<not> has_digit_run (strip_quotes s) \<and> \<not> sublist '', '' (strip_quotes s)"
proof -
  have "\<not> has_digit_run s" "\<not> sublist '', '' s"
    using assms digit_run_search comma_space_search by blast+
  then show ?thesis
    using digit_run_sublist [OF _ strip_quotes_sublist]
      sublist_order.order_trans [OF _ strip_quotes_sublist]
    by blast
qed

lemma strings_of_mem: "s \<in> set (strings_of vs) \<longleftrightarrow> PStr s \<in> set vs"
  by (induction vs rule: strings_of.induct) auto

lemma get_compound_Some:
  "get_compound pcp c = Some compound \<Longrightarrow>
     \<exists>r. pcp c = Inr r \<and> truthy (canonical_smiles r) \<and> truthy (pcp_iupac_name r) \<and>
         cid compound = c \<and>
         trivial_names compound = remdups (filter_names (synonyms r))"
  by (auto simp: get_compound_def Let_def split: sum.splits if_splits)

subsection \<open>Claims about the name filter\<close>

text \<open>
  C8. On the input \<open>["Acetone", "Acetone", 123, "CAS 67-64-1", "\"quoted\""]\<close> the
  elements of the list that \<open>filter_names\<close> returns are exactly \<open>Acetone\<close> and
  \<open>quoted\<close>, compared as a set.
\<close>

theorem filter_names_acetone_example:
  "set (filter_names [PStr ''Acetone'', PStr ''Acetone'', PInt 123, PStr ''CAS 67-64-1'',
          PStr (dquote # ''quoted'' @ [dquote])]) = {''Acetone'', ''quoted''}"
  by (simp add: filter_names_eval)

text \<open>
  C10. \<open>filter_names\<close> can return the empty string: the string that is one double quote,
  and the string that is two double quotes, each start and end with a double quote, pass
  the digit and comma filter, and come out as the empty string.
\<close>

theorem filter_names_returns_empty_string:
  "startswith_dquote [dquote] \<and> endswith_dquote [dquote] \<and> \<not> pattern_search [dquote] \<and>
   filter_names [PStr [dquote]] = [[]] \<and>
   startswith_dquote [dquote, dquote] \<and> endswith_dquote [dquote, dquote] \<and>
   \<not> pattern_search [dquote, dquote] \<and>
   filter_names [PStr [dquote, dquote]] = [[]]"
  by (simp add: filter_names_eval)

text \<open>
  C1, as the code has it. Every element of the list that \<open>filter_names\<close> returns is a
  string element of the input, with its wrapping double quotes removed if it had them, and
  holds neither a run of two or more digits nor a comma followed by a space.
  \<open>filter_names\<close> itself keeps duplicates; they are removed by its caller
  \<open>get_compound\<close>, so the trivial names of a fetched compound are free of duplicates.
\<close>

theorem filter_names_elements:
  "(\<forall>s \<in> set (filter_names names).
      (\<exists>r. PStr r \<in> set names \<and> s = strip_quotes r) \<and>
      \<not> has_digit_run s \<and> \<not> sublist '', '' s) \<and>
   (\<forall>compound. get_compound pcp c = Some compound \<longrightarrow> distinct (trivial_names compound))"
proof (intro conjI ballI allI impI)
  fix s assume "s \<in> set (filter_names names)"
  then obtain r where r: "r \<in> set (strings_of names)" "\<not> pattern_search r" "s = strip_quotes r"
    by (auto simp: filter_names_map)
  from r show "\<exists>r. PStr r \<in> set names \<and> s = strip_quotes r"
    using strings_of_mem by blast
  from r strip_quotes_clean show "\<not> has_digit_run s" by blast
  from r strip_quotes_clean show "\<not> sublist '', '' s" by blast
next
  fix compound assume "get_compound pcp c = Some compound"
  then show "distinct (trivial_names compound)"
    by (auto dest: get_compound_Some)
qed

theorem filter_names_elements_witness:
  "''quoted'' \<in> set (filter_names [PStr ''Acetone'', PStr ''CAS 67-64-1'',
                        PStr (dquote # ''quoted'' @ [dquote])]) \<and>
   \<not> has_digit_run ''quoted'' \<and> \<not> sublist '', '' ''quoted'' \<and>
   get_compound
     (\<lambda>i. Inr \<lparr>canonical_smiles = Some ''CC(=O)C'', pcp_iupac_name = Some ''propan-2-one'',
               synonyms = [PStr ''Acetone'', PStr ''Acetone'']\<rparr>) 180 =
     Some \<lparr>cid = 180, smiles = ''CC(=O)C'', iupac_name = ''propan-2-one'',
           trivial_names = [''Acetone'']\<rparr> \<and>
   distinct (trivial_names \<lparr>cid = 180, smiles = ''CC(=O)C'', iupac_name = ''propan-2-one'',
           trivial_names = [''Acetone'']\<rparr>)"
  using filter_names_elements [of
      "[PStr ''Acetone'', PStr ''CAS 67-64-1'', PStr (dquote # ''quoted'' @ [dquote])]"
      "\<lambda>i. Inr \<lparr>canonical_smiles = Some ''CC(=O)C'', pcp_iupac_name = Some ''propan-2-one'',
               synonyms = [PStr ''Acetone'', PStr ''Acetone'']\<rparr>" 180]
  by (simp add: filter_names_eval get_compound_def truthy_def)

text \<open>C1 as stated fails: the filter returns both copies of a name given twice.\<close>

theorem filter_names_keeps_duplicates:
  "filter_names [PStr ''Acetone'', PStr ''Acetone''] = [''Acetone'', ''Acetone''] \<and>
   \<not> distinct (filter_names [PStr ''Acetone'', PStr ''Acetone''])"
  by (simp add: filter_names_eval)

section \<open>Facts about the store\<close>


lemma find_append:
  "find P (xs @ ys) = (case find P xs of None \<Rightarrow> find P ys | Some x \<Rightarrow> Some x)"
  by (induction xs) auto

text \<open>A text without a double quote is one token, and is its own content.\<close>

lemma quotes_paired_plain: "dquote \<notin> set s \<Longrightarrow> quotes_paired s"
  by (induction s rule: quotes_paired.induct) auto

lemma unescape_plain: "dquote \<notin> set s \<Longrightarrow> unescape s = s"
  by (induction s rule: unescape.induct) auto

lemma prepare_one: "dquote \<notin> set s \<Longrightarrow> nul \<notin> set s \<Longrightarrow> prepare [s] = None"
  by (simp add: prepare_def quotes_paired_plain)


lemma plain_name_empty: "plain_name []"
  by (simp add: plain_name_def sql_text_def looks_numeric_def names_column_def names_rowid_def)

text \<open>The statements on a plain name.\<close>

lemma select_name_plain:
  "plain_name name \<Longrightarrow>
   select_name d name = Inr (find (\<lambda>r. snd r = name) (TrivialNames d))"
proof -
  assume p: "plain_name name"
  then have "row_matches name = (\<lambda>r. snd r = name)"
    by (auto simp: row_matches_def plain_name_def)
  with p show ?thesis
    by (simp add: select_name_def plain_name_def sql_text_def prepare_one unescape_plain)
qed

lemma trivial_name_exists_plain:
  "plain_name name \<Longrightarrow> trivial_name_exists d name = Inr (stored_id d name \<noteq> None)"
  by (simp add: trivial_name_exists_def select_name_plain stored_id_def split: option.splits)

lemma get_trivial_name_id_plain:
  "plain_name name \<Longrightarrow> get_trivial_name_id d name = Inr (stored_id d name)"
  by (simp add: get_trivial_name_id_def select_name_plain stored_id_def split: option.splits)

lemma insert_trivial_name_plain:
  "plain_name name \<Longrightarrow>
   insert_trivial_name name d =
     Inr (d\<lparr>TrivialNames := TrivialNames d @ [(next_id (map fst (TrivialNames d)), name)]\<rparr>)"
  by (simp add: insert_trivial_name_def plain_name_def sql_text_def prepare_one unescape_plain)


text \<open>The identity of a stored text.\<close>

lemma stored_id_iff: "stored_id d name \<noteq> None \<longleftrightarrow> name \<in> snd ` set (TrivialNames d)"
proof -
  have "stored_id d name = None \<longleftrightarrow> find (\<lambda>r. snd r = name) (TrivialNames d) = None"
    by (simp add: stored_id_def split: option.splits)
  then show ?thesis by (force simp: find_None_iff)
qed

lemma stored_id_cong: "TrivialNames d' = TrivialNames d \<Longrightarrow> stored_id d' n = stored_id d n"
  by (simp add: stored_id_def)



lemma stored_id_inserted:
  "stored_id d name = None \<Longrightarrow>
   stored_id (d\<lparr>TrivialNames := TrivialNames d @ [(k, name)]\<rparr>) name = Some k"
  by (auto simp: stored_id_def find_append split: option.splits)




text \<open>\<open>add_trivial_name\<close> on a plain name.\<close>

lemma add_trivial_name_unfold:
  assumes "plain_name name" and "name = [] \<or> int64 c"
  shows "add_trivial_name name c d =
     (let d1 = (if stored_id d name \<noteq> None then d
                else d\<lparr>TrivialNames :=
                         TrivialNames d @ [(next_id (map fst (TrivialNames d)), name)]\<rparr>)
      in (Inr (stored_id d name = None),
          if name = [] then d1
          else d1\<lparr>CIDNameMatches :=
                    CIDNameMatches d1 @
                    [(next_id (map fst (CIDNameMatches d1)), the (stored_id d1 name), c)]\<rparr>))"
proof (cases "stored_id d name")
  case None
  let ?d1 = "d\<lparr>TrivialNames := TrivialNames d @ [(next_id (map fst (TrivialNames d)), name)]\<rparr>"
  have "stored_id ?d1 name = Some (next_id (map fst (TrivialNames d)))"
    using None by (rule stored_id_inserted)
  with None assms show ?thesis
    by (auto simp: add_trivial_name_def trivial_name_exists_plain insert_trivial_name_plain
        get_trivial_name_id_plain insert_cid_name_match_def Let_def)
next
  case (Some i)
  with assms show ?thesis
    by (auto simp: add_trivial_name_def trivial_name_exists_plain insert_trivial_name_plain
        get_trivial_name_id_plain insert_cid_name_match_def Let_def)
qed

lemma add_trivial_name_fst:
  "plain_name name \<Longrightarrow> name = [] \<or> int64 c \<Longrightarrow>
   fst (add_trivial_name name c d) = Inr (stored_id d name = None)"
  by (simp add: add_trivial_name_unfold Let_def)

lemma add_trivial_name_TrivialNames:
  "plain_name name \<Longrightarrow> name = [] \<or> int64 c \<Longrightarrow>
   TrivialNames (snd (add_trivial_name name c d)) =
     (if stored_id d name \<noteq> None then TrivialNames d
      else TrivialNames d @ [(next_id (map fst (TrivialNames d)), name)])"
  by (simp add: add_trivial_name_unfold Let_def)

lemma add_trivial_name_resolves:
  "plain_name name \<Longrightarrow> name = [] \<or> int64 c \<Longrightarrow>
   \<exists>i. stored_id (snd (add_trivial_name name c d)) name = Some i"
proof -
  assume a: "plain_name name" "name = [] \<or> int64 c"
  have "name \<in> snd ` set (TrivialNames (snd (add_trivial_name name c d)))"
    using a by (auto simp: add_trivial_name_TrivialNames stored_id_iff [symmetric])
  with stored_id_iff [of "snd (add_trivial_name name c d)" name]
  have "stored_id (snd (add_trivial_name name c d)) name \<noteq> None" by blast
  then show ?thesis by blast
qed

lemma add_trivial_name_CIDNameMatches:
  assumes "plain_name name" and "name = [] \<or> int64 c"
  shows "CIDNameMatches (snd (add_trivial_name name c d)) =
     (if name = [] then CIDNameMatches d
      else CIDNameMatches d @
           [(next_id (map fst (CIDNameMatches d)),
             the (stored_id (snd (add_trivial_name name c d)) name), c)])"
proof -
  let ?d1 = "if stored_id d name \<noteq> None then d
             else d\<lparr>TrivialNames :=
                      TrivialNames d @ [(next_id (map fst (TrivialNames d)), name)]\<rparr>"
  have "TrivialNames (snd (add_trivial_name name c d)) = TrivialNames ?d1"
    using assms by (simp add: add_trivial_name_TrivialNames)
  then have "stored_id (snd (add_trivial_name name c d)) name = stored_id ?d1 name"
    by (rule stored_id_cong)
  moreover have "CIDNameMatches (snd (add_trivial_name name c d)) =
     (if name = [] then CIDNameMatches d
      else CIDNameMatches d @
           [(next_id (map fst (CIDNameMatches d)), the (stored_id ?d1 name), c)])"
    using assms by (simp add: add_trivial_name_unfold Let_def)
  ultimately show ?thesis by simp
qed





















text \<open>
  The statements on texts that are not plain. The name \<open>ID\<close> is compared as the key
  column, so it is never found: every call inserts a row for it, and then raises at line
  125 with \<open>name_id = None\<close>. A CID of two to the power 63 is refused by the primary
  key, and a double quote in the IUPAC name makes the \<open>INSERT\<close> of line 110 a syntax
  error. A name that looks like a number is outside the model.
\<close>

lemma rowid_name_inserted_again:
  "add_trivial_name ''ID'' 1 empty_db =
     (Inl OperationalError,
      \<lparr>Compounds = [], TrivialNames = [(1, ''ID'')], CIDNameMatches = []\<rparr>) \<and>
   add_trivial_name ''ID'' 1
     \<lparr>Compounds = [], TrivialNames = [(1, ''ID'')], CIDNameMatches = []\<rparr> =
     (Inl OperationalError,
      \<lparr>Compounds = [], TrivialNames = [(1, ''ID''), (2, ''ID'')], CIDNameMatches = []\<rparr>)"
  by code_simp

lemma wide_cid_refused:
  "add_compound \<lparr>cid = 9223372036854775808, smiles = ''C'', iupac_name = ''methane'',
                  trivial_names = [''marsh gas'']\<rparr> empty_db =
     (Inl IntegrityError, empty_db)"
  by code_simp

lemma quoted_iupac_refused:
  "add_compound \<lparr>cid = 2, smiles = ''C'', iupac_name = ''me'' @ dquote # ''thane'',
                  trivial_names = []\<rparr> empty_db =
     (Inl OperationalError, empty_db)"
  by code_simp

lemma numeric_name_outside:
  "fst (add_trivial_name ''1.0'' 1 empty_db) = Inl Unmodelled"
  by code_simp


subsection \<open>Claims about the store\<close>




text \<open>
  C9. When the empty string has no stored identity, \<open>add_trivial_name\<close> called with
  the empty string still inserts a row for it into \<open>TrivialNames\<close> and returns true,
  and it creates no row in \<open>CIDNameMatches\<close>: the test \<open>if name\<close> guards the link
  only.
\<close>

theorem add_trivial_name_empty_new:
  "trivial_name_exists d [] = Inr False \<Longrightarrow>
   add_trivial_name [] c d =
     (Inr True, d\<lparr>TrivialNames := TrivialNames d @ [(next_id (map fst (TrivialNames d)), [])]\<rparr>) \<and>
   name_rows (snd (add_trivial_name [] c d)) [] = [(next_id (map fst (TrivialNames d)), [])] \<and>
   CIDNameMatches (snd (add_trivial_name [] c d)) = CIDNameMatches d"
proof -
  assume "trivial_name_exists d [] = Inr False"
  then have none: "stored_id d [] = None"
    by (simp add: trivial_name_exists_plain plain_name_empty)
  then have "[] \<notin> snd ` set (TrivialNames d)"
    using stored_id_iff [of d "[]"] by simp
  then have "filter (\<lambda>r. snd r = []) (TrivialNames d) = []"
    by (force simp: filter_empty_conv)
  with none show ?thesis
    by (simp add: add_trivial_name_unfold plain_name_empty Let_def name_rows_def)
qed

theorem add_trivial_name_empty_new_witness:
  "trivial_name_exists empty_db [] = Inr False \<and>
   add_trivial_name [] 7 empty_db =
     (Inr True, \<lparr>Compounds = [], TrivialNames = [(1, [])], CIDNameMatches = []\<rparr>)"
proof -
  have new: "trivial_name_exists empty_db [] = Inr False" by code_simp
  have "next_id (map fst (TrivialNames empty_db)) = 1" by code_simp
  with add_trivial_name_empty_new [OF new, of 7] new show ?thesis
    by (simp add: empty_db_def)
qed

text \<open>
  C4, as the code has it. The test \<open>if name\<close> of line 124 is on the argument, so for the
  empty string the link step is skipped: the call returns, the empty string has a stored
  identity after it, and \<open>CIDNameMatches\<close> is left as it was.
\<close>

theorem add_trivial_name_link_guard:
  "(\<exists>b. fst (add_trivial_name [] c d) = Inr b) \<and>
   (\<exists>i. get_trivial_name_id (snd (add_trivial_name [] c d)) [] = Inr (Some i)) \<and>
   CIDNameMatches (snd (add_trivial_name [] c d)) = CIDNameMatches d"
proof (intro conjI)
  show "\<exists>b. fst (add_trivial_name [] c d) = Inr b"
    by (simp add: add_trivial_name_fst plain_name_empty)
  show "\<exists>i. get_trivial_name_id (snd (add_trivial_name [] c d)) [] = Inr (Some i)"
    using add_trivial_name_resolves [of "[]" c d]
    by (simp add: get_trivial_name_id_plain plain_name_empty)
  show "CIDNameMatches (snd (add_trivial_name [] c d)) = CIDNameMatches d"
    by (simp add: add_trivial_name_CIDNameMatches plain_name_empty)
qed

theorem add_trivial_name_link_guard_witness:
  "fst (add_trivial_name [] 180 empty_db) = Inr True \<and>
   get_trivial_name_id (snd (add_trivial_name [] 180 empty_db)) [] = Inr (Some 1) \<and>
   CIDNameMatches (snd (add_trivial_name [] 180 empty_db)) = CIDNameMatches empty_db"
proof -
  have call: "add_trivial_name [] 180 empty_db =
      (Inr True, \<lparr>Compounds = [], TrivialNames = [(1, [])], CIDNameMatches = []\<rparr>)"
    by code_simp
  have "get_trivial_name_id \<lparr>Compounds = [], TrivialNames = [(1, [])], CIDNameMatches = []\<rparr> [] =
      Inr (Some 1)"
    by code_simp
  with add_trivial_name_link_guard [of 180 empty_db] call show ?thesis
    by (simp add: empty_db_def)
qed

text \<open>
  C4 as stated fails: with the empty string on the empty store, no link row is created.
\<close>

theorem add_trivial_name_empty_not_linked:
  "add_trivial_name [] 180 empty_db =
     (Inr True, \<lparr>Compounds = [], TrivialNames = [(1, [])], CIDNameMatches = []\<rparr>)"
  by code_simp





section \<open>Facts about the run\<close>

lemma run_step_None:
  "get_compound pcp c = None \<Longrightarrow>
   run_step writer pcp c st =
     \<lparr>store = store st, broken_cids = broken_cids st @ [c], fetched = fetched st @ [c],
      status_lines = status_lines st @ [(c, False)]\<rparr>"
  by (simp add: run_step_def)

lemma run_step_raise:
  "get_compound pcp c = Some compound \<Longrightarrow> writer compound (store st) = (Inl ex, d) \<Longrightarrow>
   run_step writer pcp c st =
     \<lparr>store = d, broken_cids = broken_cids st @ [c], fetched = fetched st @ [c],
      status_lines = status_lines st @ [(c, False)]\<rparr>"
  by (simp add: run_step_def)

lemma run_step_return:
  "get_compound pcp c = Some compound \<Longrightarrow> writer compound (store st) = (Inr r, d) \<Longrightarrow>
   run_step writer pcp c st =
     \<lparr>store = d, broken_cids = (if r then broken_cids st else broken_cids st @ [c]),
      fetched = fetched st @ [c], status_lines = status_lines st @ [(c, r)]\<rparr>"
  by (simp add: run_step_def)

lemma run_step_cases:
  obtains (nofetch) "get_compound pcp c = None"
  | (raise) compound ex d where "get_compound pcp c = Some compound"
      "writer compound (store st) = (Inl ex, d)"
  | (return) compound r d where "get_compound pcp c = Some compound"
      "writer compound (store st) = (Inr r, d)"
proof (cases "get_compound pcp c")
  case None then show ?thesis by (rule nofetch)
next
  case (Some compound)
  obtain res d where w: "writer compound (store st) = (res, d)"
    by (cases "writer compound (store st)")
  show ?thesis
  proof (cases res)
    case (Inl ex) with Some w show ?thesis by (auto intro: raise)
  next
    case (Inr r) with Some w show ?thesis by (auto intro: return)
  qed
qed

lemma run_step_fetched: "fetched (run_step writer pcp c st) = fetched st @ [c]"
  by (cases rule: run_step_cases [where pcp = pcp and c = c and writer = writer and st = st])
     (simp_all add: run_step_None run_step_raise run_step_return)

lemma run_step_status_cids:
  "map fst (status_lines (run_step writer pcp c st)) = map fst (status_lines st) @ [c]"
  by (cases rule: run_step_cases [where pcp = pcp and c = c and writer = writer and st = st])
     (simp_all add: run_step_None run_step_raise run_step_return)

lemma run_step_broken_mono:
  "set (broken_cids st) \<subseteq> set (broken_cids (run_step writer pcp c st))"
  by (cases rule: run_step_cases [where pcp = pcp and c = c and writer = writer and st = st])
     (auto simp: run_step_None run_step_raise run_step_return)


lemma run_step_broken_status:
  "broken_cids st = map fst (filter (\<lambda>l. \<not> snd l) (status_lines st)) \<Longrightarrow>
   broken_cids (run_step writer pcp c st) =
     map fst (filter (\<lambda>l. \<not> snd l) (status_lines (run_step writer pcp c st)))"
  by (cases rule: run_step_cases [where pcp = pcp and c = c and writer = writer and st = st])
     (auto simp: run_step_None run_step_raise run_step_return)

lemma run_loop_append:
  "run_loop writer pcp (xs @ ys) st = run_loop writer pcp ys (run_loop writer pcp xs st)"
  by (induction xs arbitrary: st) simp_all

lemma run_loop_fetched: "fetched (run_loop writer pcp cs st) = fetched st @ cs"
  by (induction cs arbitrary: st) (simp_all add: run_step_fetched)

lemma run_loop_status_cids:
  "map fst (status_lines (run_loop writer pcp cs st)) = map fst (status_lines st) @ cs"
  by (induction cs arbitrary: st) (simp_all add: run_step_status_cids)

lemma run_loop_broken_mono:
  "set (broken_cids st) \<subseteq> set (broken_cids (run_loop writer pcp cs st))"
proof (induction cs arbitrary: st)
  case Nil show ?case by simp
next
  case (Cons c cs)
  from run_step_broken_mono [of st writer pcp c] Cons.IH [of "run_step writer pcp c st"]
  show ?case by auto
qed


lemma run_loop_broken_status:
  "broken_cids st = map fst (filter (\<lambda>l. \<not> snd l) (status_lines st)) \<Longrightarrow>
   broken_cids (run_loop writer pcp cs st) =
     map fst (filter (\<lambda>l. \<not> snd l) (status_lines (run_loop writer pcp cs st)))"
  by (induction cs arbitrary: st) (simp_all add: run_step_broken_status)

text \<open>The first identifier of a run.\<close>

lemma start_cid_spec: "start_cid (get_max_cid d) = spec_start d"
  by (simp add: start_cid_def spec_start_def split: option.splits)





lemma run_cids_with_unfold:
  "run_cids_with writer pcp count file =
     run_loop writer pcp [spec_start (create file) .. spec_start (create file) + count - 1]
       \<lparr>store = create file, broken_cids = [], fetched = [], status_lines = []\<rparr>"
  by (simp add: run_cids_with_def Let_def start_cid_spec)

subsection \<open>Claims about the run\<close>

text \<open>
  C5. The first identifier of a run is \<open>(max_known_id or 0) + 1\<close>, and the identifiers
  that \<open>run_cids\<close> passes to \<open>get_compound\<close> are those of the range from there,
  \<open>count\<close> of them, each once, in ascending order, whatever the fetches answer; every
  one of them gets its status line.
\<close>

theorem run_cids_attempts_range:
  "start_cid (get_max_cid (create file)) = spec_start (create file) \<and>
   fetched (run_cids pcp count file) =
     [spec_start (create file) .. spec_start (create file) + count - 1] \<and>
   map fst (status_lines (run_cids pcp count file)) = fetched (run_cids pcp count file) \<and>
   sorted_wrt (<) (fetched (run_cids pcp count file)) \<and>
   distinct (fetched (run_cids pcp count file)) \<and>
   set (fetched (run_cids pcp count file)) =
     {spec_start (create file) ..< spec_start (create file) + count} \<and>
   length (fetched (run_cids pcp count file)) = nat count"
proof -
  let ?s = "spec_start (create file)"
  have f: "fetched (run_cids pcp count file) = [?s .. ?s + count - 1]"
    by (simp add: run_cids_def run_cids_with_unfold run_loop_fetched)
  have st: "map fst (status_lines (run_cids pcp count file)) = [?s .. ?s + count - 1]"
    by (simp add: run_cids_def run_cids_with_unfold run_loop_status_cids)
  have "sorted_wrt (<) [?s .. ?s + count - 1]"
    by (simp add: strict_sorted_iff)
  moreover have "set [?s .. ?s + count - 1] = {?s ..< ?s + count}" by auto
  moreover have "length [?s .. ?s + count - 1] = nat count" by simp
  ultimately show ?thesis using f st by (simp add: start_cid_spec)
qed

theorem run_cids_attempts_range_witness:
  "fetched (run_cids mock_pcp 4 None) = [1, 2, 3, 4] \<and>
   status_lines (run_cids mock_pcp 4 None) = [(1, True), (2, True), (3, False), (4, False)] \<and>
   spec_start (create None) = 1"
proof -
  have run: "run_cids mock_pcp 4 None =
      \<lparr>store = \<lparr>Compounds = [(1, ''methane'', ''C''), (2, ''methane'', ''C'')],
                 TrivialNames = [(1, ''marsh gas'')],
                 CIDNameMatches = [(1, 1, 1), (2, 1, 2)]\<rparr>,
       broken_cids = [3, 4], fetched = [1, 2, 3, 4],
       status_lines = [(1, True), (2, True), (3, False), (4, False)]\<rparr>"
    by code_simp
  have s: "spec_start (create None) = 1" by code_simp
  show ?thesis using run_cids_attempts_range [of None mock_pcp 4] by (simp add: run s)
qed



text \<open>
  C7. When \<open>add_compound\<close> raises for an identifier of the range, the error is caught
  in the iteration: the store is left as the failed call left it, the identifier is added
  to the list of identifiers not added, its status line says not added, and the loop goes
  on with the next identifier. Whatever the fetches and the store do, the run visits the
  whole range, and the list of identifiers not added is exactly the list of those whose
  status line says not added.
\<close>

theorem storage_error_caught:
  assumes "s = spec_start (create file)" and "s \<le> c" and "c < s + count"
    and "st = run_loop writer pcp [s .. c - 1]
                \<lparr>store = create file, broken_cids = [], fetched = [], status_lines = []\<rparr>"
    and "get_compound pcp c = Some compound"
    and "writer compound (store st) = (Inl ex, d)"
  shows "run_step writer pcp c st =
           \<lparr>store = d, broken_cids = broken_cids st @ [c], fetched = fetched st @ [c],
            status_lines = status_lines st @ [(c, False)]\<rparr> \<and>
         run_cids_with writer pcp count file =
           run_loop writer pcp [c + 1 .. s + count - 1] (run_step writer pcp c st) \<and>
         c \<in> set (broken_cids (run_cids_with writer pcp count file)) \<and>
         fetched (run_cids_with writer pcp count file) = [s .. s + count - 1] \<and>
         broken_cids (run_cids_with writer pcp count file) =
           map fst (filter (\<lambda>l. \<not> snd l) (status_lines (run_cids_with writer pcp count file)))"
proof -
  have step: "run_step writer pcp c st =
           \<lparr>store = d, broken_cids = broken_cids st @ [c], fetched = fetched st @ [c],
            status_lines = status_lines st @ [(c, False)]\<rparr>"
    using assms(5,6) by (rule run_step_raise)
  have "[s .. s + count - 1] = [s .. c - 1] @ c # [c + 1 .. s + count - 1]"
    using assms(2,3) by (intro upto_split3) auto
  then have run: "run_cids_with writer pcp count file =
           run_loop writer pcp [c + 1 .. s + count - 1] (run_step writer pcp c st)"
    using assms(1,4) by (simp add: run_cids_with_unfold run_loop_append)
  have "c \<in> set (broken_cids (run_step writer pcp c st))" using step by simp
  with run_loop_broken_mono [of "run_step writer pcp c st" writer pcp "[c + 1 .. s + count - 1]"]
  have br: "c \<in> set (broken_cids (run_cids_with writer pcp count file))"
    using run by auto
  have fe: "fetched (run_cids_with writer pcp count file) = [s .. s + count - 1]"
    using assms(1) by (simp add: run_cids_with_unfold run_loop_fetched)
  have bs: "broken_cids (run_cids_with writer pcp count file) =
           map fst (filter (\<lambda>l. \<not> snd l) (status_lines (run_cids_with writer pcp count file)))"
    unfolding run_cids_with_unfold by (rule run_loop_broken_status) simp
  from step run br fe bs show ?thesis by blast
qed

theorem storage_error_caught_witness:
  "get_compound mock_pcp 2 =
     Some \<lparr>cid = 2, smiles = ''C'', iupac_name = ''methane'', trivial_names = [''marsh gas'']\<rparr> \<and>
   failing_store
     \<lparr>cid = 2, smiles = ''C'', iupac_name = ''methane'', trivial_names = [''marsh gas'']\<rparr>
     \<lparr>Compounds = [(1, ''methane'', ''C'')], TrivialNames = [(1, ''marsh gas'')],
      CIDNameMatches = [(1, 1, 1)]\<rparr> =
     (Inl OperationalError,
      \<lparr>Compounds = [(1, ''methane'', ''C''), (2, ''methane'', ''C'')],
       TrivialNames = [(1, ''marsh gas'')], CIDNameMatches = [(1, 1, 1)]\<rparr>) \<and>
   run_cids_with failing_store mock_pcp 3 None =
     \<lparr>store = \<lparr>Compounds = [(1, ''methane'', ''C''), (2, ''methane'', ''C'')],
                TrivialNames = [(1, ''marsh gas'')], CIDNameMatches = [(1, 1, 1)]\<rparr>,
      broken_cids = [2, 3], fetched = [1, 2, 3],
      status_lines = [(1, True), (2, False), (3, False)]\<rparr> \<and>
   2 \<in> set (broken_cids (run_cids_with failing_store mock_pcp 3 None))"
proof -
  let ?c2 = "\<lparr>cid = 2, smiles = ''C'', iupac_name = ''methane'',
              trivial_names = [''marsh gas'']\<rparr>"
  let ?d1 = "\<lparr>Compounds = [(1, ''methane'', ''C'')], TrivialNames = [(1, ''marsh gas'')],
              CIDNameMatches = [(1, 1, 1)]\<rparr>"
  let ?d2 = "\<lparr>Compounds = [(1, ''methane'', ''C''), (2, ''methane'', ''C'')],
              TrivialNames = [(1, ''marsh gas'')], CIDNameMatches = [(1, 1, 1)]\<rparr>"
  let ?st = "\<lparr>store = ?d1, broken_cids = [], fetched = [1], status_lines = [(1, True)]\<rparr>"
  have h1: "(1::int) = spec_start (create None)" by code_simp
  have h2: "(1::int) \<le> 2" and h3: "(2::int) < 1 + 3" by simp_all
  have h4: "?st = run_loop failing_store mock_pcp [1 .. 2 - 1]
                \<lparr>store = create None, broken_cids = [], fetched = [], status_lines = []\<rparr>"
    by code_simp
  have h5: "get_compound mock_pcp 2 = Some ?c2" by code_simp
  have h6: "failing_store ?c2 (store ?st) = (Inl OperationalError, ?d2)" by code_simp
  have run: "run_cids_with failing_store mock_pcp 3 None =
      \<lparr>store = ?d2, broken_cids = [2, 3], fetched = [1, 2, 3],
       status_lines = [(1, True), (2, False), (3, False)]\<rparr>"
    by code_simp
  from storage_error_caught [OF h1 h2 h3 h4 h5 h6] h5 h6 run
  show ?thesis by simp
qed

end
